theory Spec2Isabelle
  imports Main "HOL-Library.Sublist"
begin

section \<open>JavaScript values\<close>

text \<open>
  A JavaScript string is modelled as a \<^typ>\<open>string\<close>, one \<^typ>\<open>char\<close> per code unit; the
  characters the code looks at (\<open>/\<close>, \<open>i\<close>, \<open>;\<close>, carriage return) are ASCII.
  An exception is a value of type \<open>error\<close> on the left of a sum; \<open>false\<close> as "no match"
  is \<^const>\<open>None\<close>.
\<close>

datatype error = SyntaxError | TypeError

text \<open>\<open>s[i]\<close>: the character at index \<open>i\<close>, \<open>undefined\<close> (here \<^const>\<open>None\<close>) out of range.
  An out-of-range read raises nothing in JavaScript.\<close>

definition strIndex :: "string \<Rightarrow> int \<Rightarrow> char option" where
  "strIndex s i = (if 0 \<le> i \<and> i < int (length s) then Some (s ! nat i) else None)"

text \<open>\<open>s.slice(start, fin)\<close>: a negative bound counts from the end, both bounds are clamped to
  the string, and an empty range gives the empty string.\<close>

definition slice :: "string \<Rightarrow> int \<Rightarrow> int \<Rightarrow> string" where
  "slice s start fin =
     (let len = int (length s);
          from = (if start < 0 then max (len + start) 0 else min start len);
          to = (if fin < 0 then max (len + fin) 0 else min fin len)
      in take (nat (to - from)) (drop (nat from) s))"

text \<open>
  The regular-expression engine belongs to the JavaScript runtime, not to the module, and
  is a parameter: \<open>newRegExp source ignoreCase\<close> is \<open>new RegExp(source)\<close> or
  \<open>new RegExp(source, "i")\<close>, which throws a \<open>SyntaxError\<close> on a malformed source, and
  \<open>exec re value\<close> is \<open>re.exec(value)\<close>, giving \<open>match[0]\<close> or \<open>null\<close>. The regular
  expressions are taken without the \<open>g\<close> and \<open>y\<close> flags, so that \<open>exec\<close> does not depend on
  a \<open>lastIndex\<close> left by an earlier call (the ones the module compiles itself never have them).
\<close>

record 'rx engine =
  newRegExp :: "string \<Rightarrow> bool \<Rightarrow> error + 'rx"
  exec :: "'rx \<Rightarrow> string \<Rightarrow> string option"


section \<open>The option utilities (\<open>lib/utils/option\<close>)\<close>

text \<open>\<open>string | RegExp\<close>, \<open>string | RegExp | Array<string | RegExp>\<close> and
  \<open>string | Array<string>\<close>, the types of the source's doc comments.\<close>

datatype 'rx pattern = Str string | Rx 'rx

datatype 'rx comparison = One "'rx pattern" | Many "'rx pattern list"

datatype input = Single string | Multi "string list"

text \<open>The object a successful test returns.\<close>

record 'rx testResult =
  match :: string
  pattern :: "'rx pattern"
  substring :: string

subsection \<open>\<open>testAgainstStringOrRegExp\<close>\<close>

text \<open>The local constants \<open>comparisonIsRegex\<close> and \<open>hasCaseInsensitiveFlag\<close> of the
  function, with the three characters they are computed from.\<close>

definition comparisonIsRegex :: "string \<Rightarrow> bool" where
  "comparisonIsRegex comparison =
     (let firstComparisonChar = strIndex comparison 0;
          lastComparisonChar = strIndex comparison (int (length comparison) - 1);
          secondToLastComparisonChar = strIndex comparison (int (length comparison) - 2)
      in firstComparisonChar = Some CHR ''/'' \<and>
         (lastComparisonChar = Some CHR ''/'' \<or>
          (secondToLastComparisonChar = Some CHR ''/'' \<and> lastComparisonChar = Some CHR ''i'')))"

definition hasCaseInsensitiveFlag :: "string \<Rightarrow> bool" where
  "hasCaseInsensitiveFlag comparison =
     (comparisonIsRegex comparison \<and>
      strIndex comparison (int (length comparison) - 1) = Some CHR ''i'')"

definition testAgainstStringOrRegExp ::
  "'rx engine \<Rightarrow> string \<Rightarrow> 'rx pattern \<Rightarrow> error + 'rx testResult option" where
  "testAgainstStringOrRegExp E value comparison =
     (case comparison of
        Rx re \<Rightarrow>
          (case exec E re value of
             Some m \<Rightarrow>
               Inr (Some \<lparr>match = value, pattern = comparison,
                          substring = (if m = [] then [] else m)\<rparr>)
           | None \<Rightarrow> Inr None)
      | Str c \<Rightarrow>
          if comparisonIsRegex c then
            (case (if hasCaseInsensitiveFlag c then newRegExp E (slice c 1 (- 2)) True
                   else newRegExp E (slice c 1 (- 1)) False) of
               Inl err \<Rightarrow> Inl err
             | Inr re \<Rightarrow>
                 (case exec E re value of
                    Some m \<Rightarrow>
                      Inr (Some \<lparr>match = value, pattern = comparison,
                                 substring = (if m = [] then [] else m)\<rparr>)
                  | None \<Rightarrow> Inr None))
          else if value = c then
            Inr (Some \<lparr>match = value, pattern = comparison, substring = value\<rparr>)
          else Inr None)"

subsection \<open>\<open>testAgainstStringOrRegExpOrArray\<close> and \<open>matchesStringOrRegExp\<close>\<close>

text \<open>The \<open>for ... of\<close> loop over the comparison items: the first truthy test result is
  returned, an exception ends the loop, \<open>false\<close> goes on to the next item.\<close>

fun comparisonLoop ::
  "'rx engine \<Rightarrow> string \<Rightarrow> 'rx pattern list \<Rightarrow> error + 'rx testResult option" where
  "comparisonLoop E value [] = Inr None"
| "comparisonLoop E value (comparisonItem # rest) =
     (case testAgainstStringOrRegExp E value comparisonItem of
        Inl err \<Rightarrow> Inl err
      | Inr (Some testResult) \<Rightarrow> Inr (Some testResult)
      | Inr None \<Rightarrow> comparisonLoop E value rest)"

definition testAgainstStringOrRegExpOrArray ::
  "'rx engine \<Rightarrow> string \<Rightarrow> 'rx comparison \<Rightarrow> error + 'rx testResult option" where
  "testAgainstStringOrRegExpOrArray E value comparison =
     (case comparison of
        One p \<Rightarrow> testAgainstStringOrRegExp E value p
      | Many ps \<Rightarrow> comparisonLoop E value ps)"

text \<open>The \<open>for ... of\<close> loop over the input items.\<close>

fun inputLoop ::
  "'rx engine \<Rightarrow> string list \<Rightarrow> 'rx comparison \<Rightarrow> error + 'rx testResult option" where
  "inputLoop E [] comparison = Inr None"
| "inputLoop E (inputItem # rest) comparison =
     (case testAgainstStringOrRegExpOrArray E inputItem comparison of
        Inl err \<Rightarrow> Inl err
      | Inr (Some testResult) \<Rightarrow> Inr (Some testResult)
      | Inr None \<Rightarrow> inputLoop E rest comparison)"

definition matchesStringOrRegExp ::
  "'rx engine \<Rightarrow> input \<Rightarrow> 'rx comparison \<Rightarrow> error + 'rx testResult option" where
  "matchesStringOrRegExp E inp comparison =
     (case inp of
        Single value \<Rightarrow> testAgainstStringOrRegExpOrArray E value comparison
      | Multi items \<Rightarrow> inputLoop E items comparison)"

subsection \<open>\<open>optionsMatches\<close>\<close>

text \<open>
  The options object maps property names to comparisons; \<open>undefined\<close> or \<open>null\<close> in place
  of the object, and a missing property, are \<^const>\<open>None\<close>. Of the comparisons only the
  empty string is falsy (an empty array is truthy). The input is \<open>unknown\<close> in the source
  and tested with \<open>typeof\<close>.
\<close>

type_synonym 'rx options = "string \<Rightarrow> 'rx comparison option"

datatype unknown = IsString string | NotString

definition optionsMatches ::
  "'rx engine \<Rightarrow> 'rx options option \<Rightarrow> string \<Rightarrow> unknown \<Rightarrow> error + bool" where
  "optionsMatches E options propertyName inp =
     (case options of
        None \<Rightarrow> Inr False
      | Some opts \<Rightarrow>
          (case opts propertyName of
             None \<Rightarrow> Inr False
           | Some comparison \<Rightarrow>
               if comparison = One (Str []) then Inr False
               else
                 (case inp of
                    NotString \<Rightarrow> Inr False
                  | IsString s \<Rightarrow>
                      (case matchesStringOrRegExp E (Single s) comparison of
                         Inl err \<Rightarrow> Inl err
                       | Inr r \<Rightarrow> Inr (r \<noteq> None)))))"

section \<open>A regular-expression engine to evaluate with\<close>

text \<open>
  An engine for the patterns made of letters and digits with an optional leading \<open>^\<close>,
  on which it agrees with ECMAScript: the leftmost occurrence of the pattern, compared
  letter by letter and without regard to case under the \<open>i\<close> flag; the empty pattern matches
  the empty string at the start of every input. A source outside this fragment, such as
  the unterminated group \<open>(\<close>, is refused.
\<close>

datatype sampleRx = SampleRx (anchored: bool) (ignoreCase: bool) (chars: string)

definition plainChar :: "char \<Rightarrow> bool" where
  "plainChar c =
     (let n = (of_char c :: nat)
      in (48 \<le> n \<and> n \<le> 57) \<or> (65 \<le> n \<and> n \<le> 90) \<or> (97 \<le> n \<and> n \<le> 122))"

definition lowerChar :: "char \<Rightarrow> char" where
  "lowerChar c =
     (case map_of (zip ''ABCDEFGHIJKLMNOPQRSTUVWXYZ'' ''abcdefghijklmnopqrstuvwxyz'') c of
        Some l \<Rightarrow> l
      | None \<Rightarrow> c)"

definition sampleCompile :: "string \<Rightarrow> bool \<Rightarrow> error + sampleRx" where
  "sampleCompile src ci =
     (case src of
        [] \<Rightarrow> Inr (SampleRx False ci [])
      | c # rest \<Rightarrow>
          if c = CHR ''^'' then
            (if list_all plainChar rest then Inr (SampleRx True ci rest) else Inl SyntaxError)
          else if list_all plainChar src then Inr (SampleRx False ci src)
          else Inl SyntaxError)"

definition sampleMatchesAt :: "sampleRx \<Rightarrow> string \<Rightarrow> bool" where
  "sampleMatchesAt re s =
     (length (chars re) \<le> length s \<and>
      (if ignoreCase re
       then map lowerChar (take (length (chars re)) s) = map lowerChar (chars re)
       else take (length (chars re)) s = chars re))"

fun sampleSearch :: "sampleRx \<Rightarrow> string \<Rightarrow> string option" where
  "sampleSearch re [] = (if chars re = [] then Some [] else None)"
| "sampleSearch re (c # cs) =
     (if sampleMatchesAt re (c # cs) then Some (take (length (chars re)) (c # cs))
      else sampleSearch re cs)"

definition sampleExec :: "sampleRx \<Rightarrow> string \<Rightarrow> string option" where
  "sampleExec re s =
     (if anchored re then
        (if sampleMatchesAt re s then Some (take (length (chars re)) s) else None)
      else sampleSearch re s)"

definition sampleEngine :: "sampleRx engine" where
  "sampleEngine = \<lparr>newRegExp = sampleCompile, exec = sampleExec\<rparr>"

section \<open>The rule \<open>block-closing-brace-empty-line-before\<close>\<close>

subsection \<open>The tree, the context and the collaborators\<close>

text \<open>
  A PostCSS node has a \<open>type\<close>; a statement (a rule or an at-rule) has, besides, its
  children \<open>nodes\<close> (\<open>undefined\<close> for a statement without a block) and the raw text
  \<open>raws.after\<close> between its last child and the closing brace.
\<close>

record node =
  type :: string

record statement = node +
  nodes :: "node list option"
  raws_after :: "string option"

text \<open>The rule's context: the \<open>fix\<close> flag and \<open>newline\<close>, which is \<^const>\<open>None\<close> when it is
  not a string.\<close>

record ruleContext =
  "fix" :: bool
  newline :: "string option"

record messages =
  expected :: string
  rejected :: string

text \<open>The object passed to \<open>report\<close> (its \<open>result\<close> is the list the reports are kept in).\<close>

record report =
  message :: string
  ruleName' :: string
  node :: statement
  index :: int

text \<open>
  What the rule calls and this file does not define: \<open>toString\<close> of PostCSS,
  \<open>ruleMessages\<close> of stylelint, and the helpers of \<open>lib/utils/ast\<close>, \<open>text\<close> and \<open>fix\<close>.
  They are parameters of the model.
\<close>

record collaborators =
  statementToString :: "statement \<Rightarrow> string"
  blockString :: "statement \<Rightarrow> string"
  hasEmptyLine :: "string \<Rightarrow> bool"
  isSingleLineString :: "string \<Rightarrow> bool"
  addEmptyLineAfter :: "statement \<Rightarrow> string \<Rightarrow> statement"
  removeEmptyLinesAfter :: "statement \<Rightarrow> string \<Rightarrow> statement"
  ruleMessages :: "string \<Rightarrow> messages \<Rightarrow> messages"

text \<open>Modelled from the spec: \<open>hasBlock\<close> and \<open>hasEmptyBlock\<close> of \<open>lib/utils/ast\<close>, which is
  not among the sources. A statement is skipped when it "has no body at all, or has a body
  with zero children (empty block)".\<close>

definition hasBlock :: "statement \<Rightarrow> bool" where
  "hasBlock statement = (nodes statement \<noteq> None)"

definition hasEmptyBlock :: "statement \<Rightarrow> bool" where
  "hasEmptyBlock statement = (nodes statement = Some [])"

subsection \<open>The rule's constants\<close>

definition ruleName :: string where
  "ruleName = ''block-closing-brace-empty-line-before''"

definition messages :: "collaborators \<Rightarrow> messages" where
  "messages K =
     ruleMessages K ruleName
       \<lparr>expected = ''Expected empty line before closing brace'',
        rejected = ''Unexpected empty line before closing brace''\<rparr>"

text \<open>The schema the rule hands to \<open>validateOptions\<close>: the primary option is one of two
  strings; the secondary options are optional, and \<open>except\<close>, when present, is
  \<open>"after-closing-brace"\<close> or an array of it.\<close>

definition validOptions :: "string \<Rightarrow> 'rx options option \<Rightarrow> bool" where
  "validOptions primary secondaryOptions =
     ((primary = ''always-multi-line'' \<or> primary = ''never'') \<and>
      (case secondaryOptions of
         None \<Rightarrow> True
       | Some opts \<Rightarrow>
           (case opts ''except'' of
              None \<Rightarrow> True
            | Some (One p) \<Rightarrow> p = Str ''after-closing-brace''
            | Some (Many ps) \<Rightarrow> list_all (\<lambda>p. p = Str ''after-closing-brace'') ps)))"

subsection \<open>\<open>check\<close>\<close>

text \<open>\<open>text.replace(/;+/, "")\<close>: the pattern has no \<open>g\<close> flag, so the leftmost match alone is
  replaced, which is the first semicolon with the semicolons that follow it directly.\<close>

definition replaceSemicolons :: "string \<Rightarrow> string" where
  "replaceSemicolons text =
     takeWhile (\<lambda>c. c \<noteq> CHR '';'') text @
     dropWhile (\<lambda>c. c = CHR '';'') (dropWhile (\<lambda>c. c \<noteq> CHR '';'') text)"

text \<open>The local constant \<open>before\<close>; \<open>raws.after || ""\<close> is the empty string when the field is
  \<open>undefined\<close>.\<close>

definition before :: "statement \<Rightarrow> string" where
  "before statement =
     replaceSemicolons (case raws_after statement of None \<Rightarrow> [] | Some after \<Rightarrow> after)"

text \<open>The local variable \<open>index\<close>.\<close>

definition braceIndex :: "collaborators \<Rightarrow> statement \<Rightarrow> int" where
  "braceIndex K statement =
     (let statementString = statementToString K statement;
          index = int (length statementString) - 1
      in if strIndex statementString (index - 1) = Some (CHR 0x0D) then index - 1 else index)"

text \<open>The local constant \<open>expectEmptyLineBefore\<close>. Reading \<open>nodes\<close> of a statement without a
  block would throw a \<open>TypeError\<close>; an exception of \<open>optionsMatches\<close> goes through.\<close>

definition expectEmptyLineBefore ::
  "'rx engine \<Rightarrow> collaborators \<Rightarrow> string \<Rightarrow> 'rx options option \<Rightarrow> statement \<Rightarrow> error + bool" where
  "expectEmptyLineBefore E K primary secondaryOptions statement =
     (case nodes statement of
        None \<Rightarrow> Inl TypeError
      | Some children \<Rightarrow>
          (let childNodeTypes = map type children
           in case optionsMatches E secondaryOptions ''except'' (IsString ''after-closing-brace'') of
                Inl err \<Rightarrow> Inl err
              | Inr excepted \<Rightarrow>
                  if excepted \<and> type statement = ''atrule'' \<and> ''decl'' \<notin> set childNodeTypes
                  then Inr (primary = ''never'')
                  else Inr (primary = ''always-multi-line'' \<and>
                            \<not> isSingleLineString K (blockString K statement))))"

text \<open>The state \<open>check\<close> works on: the statement, which a fix rewrites, and the reports made
  so far.\<close>

record checked =
  statement :: statement
  result :: "report list"

definition check ::
  "'rx engine \<Rightarrow> collaborators \<Rightarrow> string \<Rightarrow> 'rx options option \<Rightarrow> ruleContext \<Rightarrow>
   checked \<Rightarrow> error + checked" where
  "check E K primary secondaryOptions context st =
     (if \<not> hasBlock (statement st) \<or> hasEmptyBlock (statement st) then Inr st
      else
        (case expectEmptyLineBefore E K primary secondaryOptions (statement st) of
           Inl err \<Rightarrow> Inl err
         | Inr expect \<Rightarrow>
             (let hasEmptyLineBefore = hasEmptyLine K (before (statement st))
              in if expect = hasEmptyLineBefore then Inr st
                 else if fix context then
                   (case newline context of
                      None \<Rightarrow> Inr st
                    | Some nl \<Rightarrow>
                        Inr (st\<lparr>statement :=
                                  (if expect then addEmptyLineAfter K (statement st) nl
                                   else removeEmptyLinesAfter K (statement st) nl)\<rparr>))
                 else
                   Inr (st\<lparr>result := result st @
                             [\<lparr>message = (if expect then expected (messages K)
                                           else rejected (messages K)),
                               ruleName' = ruleName,
                               node = statement st,
                               index = braceIndex K (statement st)\<rparr>]\<rparr>))))"

section \<open>The specification's wording\<close>

text \<open>
  The embedded-regex convention as the specification words it, on the characters of the
  string: the first character is \<open>/\<close>, and the last is \<open>/\<close> or the last two are \<open>/i\<close>.
  The inner pattern drops the leading \<open>/\<close> and the trailing \<open>/\<close> or \<open>/i\<close>.
\<close>

definition denotesRegex :: "string \<Rightarrow> bool" where
  "denotesRegex c =
     (hd c = CHR ''/'' \<and>
      (last c = CHR ''/'' \<or> (c ! (length c - 2) = CHR ''/'' \<and> last c = CHR ''i'')))"

definition innerPattern :: "string \<Rightarrow> string" where
  "innerPattern c =
     (if last c = CHR ''i'' then tl (take (length c - 2) c) else tl (butlast c))"

text \<open>The literal comparison: a match of the whole value iff the two strings are equal.\<close>

definition literalTest :: "string \<Rightarrow> string \<Rightarrow> error + 'rx testResult option" where
  "literalTest value c =
     (if value = c then Inr (Some \<lparr>match = value, pattern = Str c, substring = value\<rparr>)
      else Inr None)"

text \<open>"Apply it to the value exactly as in the native-regex branch": the result of the
  native branch for the compiled expression, reported under the comparison string.\<close>

definition asNativeRegex ::
  "'rx engine \<Rightarrow> string \<Rightarrow> string \<Rightarrow> 'rx \<Rightarrow> error + 'rx testResult option" where
  "asNativeRegex E value c re =
     map_sum id (map_option (\<lambda>r. r\<lparr>pattern := Str c\<rparr>))
       (testAgainstStringOrRegExp E value (Rx re))"

text \<open>"The first non-NoMatch result in order": of a sequence of results, the first that is
  a match or an exception, and no match when there is none.\<close>

fun firstHit :: "(error + 'a option) list \<Rightarrow> error + 'a option" where
  "firstHit [] = Inr None"
| "firstHit (r # rs) = (if r = Inr None then firstHit rs else r)"

text \<open>"The \<open>except\<close> option contains \<open>x\<close>", for options that passed validation.\<close>

definition exceptContains :: "'rx options option \<Rightarrow> string \<Rightarrow> bool" where
  "exceptContains secondaryOptions x =
     (case secondaryOptions of
        None \<Rightarrow> False
      | Some opts \<Rightarrow>
          (case opts ''except'' of
             None \<Rightarrow> False
           | Some (One p) \<Rightarrow> p = Str x
           | Some (Many ps) \<Rightarrow> list_ex (\<lambda>p. p = Str x) ps))"

section \<open>Collaborators to evaluate with\<close>

text \<open>
  A tree provider that serialises every statement to the given text and block, the two
  text tests as stylelint writes them (\<open>/\n[\r\t ]*\n/\<close> and \<open>!/[\n\r]/\<close>), two fixes that
  rewrite \<open>raws.after\<close>, and stylelint's \<open>ruleMessages\<close>, which appends the rule's name.
\<close>

fun blankUntilNewline :: "string \<Rightarrow> bool" where
  "blankUntilNewline [] = False"
| "blankUntilNewline (c # cs) =
     (if c = CHR 0x0A then True
      else if c = CHR 0x0D \<or> c = CHR 0x09 \<or> c = CHR '' '' then blankUntilNewline cs
      else False)"

fun sampleHasEmptyLine :: "string \<Rightarrow> bool" where
  "sampleHasEmptyLine [] = False"
| "sampleHasEmptyLine (c # cs) =
     (if c = CHR 0x0A \<and> blankUntilNewline cs then True else sampleHasEmptyLine cs)"

text \<open>\<open>ruleMessages\<close> as stylelint defines it: every message text is followed by the rule's
  name in parentheses.\<close>

definition stylelintRuleMessages :: "string \<Rightarrow> messages \<Rightarrow> messages" where
  "stylelintRuleMessages name m =
     \<lparr>expected = expected m @ '' ('' @ name @ '')'',
      rejected = rejected m @ '' ('' @ name @ '')''\<rparr>"

definition sampleCollaborators :: "string \<Rightarrow> string \<Rightarrow> collaborators" where
  "sampleCollaborators text block =
     \<lparr>statementToString = (\<lambda>s. text),
      blockString = (\<lambda>s. block),
      hasEmptyLine = sampleHasEmptyLine,
      isSingleLineString = list_all (\<lambda>c. c \<noteq> CHR 0x0A \<and> c \<noteq> CHR 0x0D),
      addEmptyLineAfter = (\<lambda>s nl. s\<lparr>raws_after := Some (nl @ nl)\<rparr>),
      removeEmptyLinesAfter = (\<lambda>s nl. s\<lparr>raws_after := Some nl\<rparr>),
      ruleMessages = stylelintRuleMessages\<rparr>"

text \<open>The rule \<open>a { color: red; }\<close> written over three lines, and the at-rule
  \<open>@media print { a { } }\<close>, with the given \<open>raws.after\<close>.\<close>

definition sampleRule :: "string \<Rightarrow> statement" where
  "sampleRule after =
     \<lparr>type = ''rule'', nodes = Some [\<lparr>type = ''decl''\<rparr>], raws_after = Some after\<rparr>"

definition sampleAtRule :: "string \<Rightarrow> statement" where
  "sampleAtRule after =
     \<lparr>type = ''atrule'', nodes = Some [\<lparr>type = ''rule''\<rparr>], raws_after = Some after\<rparr>"

text \<open>The tree provider for the rule of three lines with a blank line before the brace, and
  the state \<open>check\<close> starts from: the rule and no report.\<close>

definition sampleTree :: collaborators where
  "sampleTree =
     sampleCollaborators ''a {\<newline>  color: red;\<newline>\<newline>}'' ''{\<newline>  color: red;\<newline>\<newline>}''"

definition sampleChecked :: "string \<Rightarrow> checked" where
  "sampleChecked after = \<lparr>statement = sampleRule after, result = []\<rparr>"

text \<open>The rule \<open>a { color: red;\<close>, a carriage return, \<open>}\<close>: the tree provider for it and the
  state \<open>check\<close> starts from. Its \<open>raws.after\<close> is the carriage return.\<close>

definition crText :: string where
  "crText = ''a { color: red;'' @ [CHR 0x0D, CHR ''}'']"

definition crTree :: collaborators where
  "crTree = sampleCollaborators crText (''{ color: red;'' @ [CHR 0x0D, CHR ''}''])"

definition crChecked :: checked where
  "crChecked = \<lparr>statement = sampleRule [CHR 0x0D], result = []\<rparr>"

section \<open>Facts about strings\<close>

lemma strIndex_first: "c \<noteq> [] \<Longrightarrow> strIndex c 0 = Some (hd c)"
  by (cases c) (simp_all add: strIndex_def)

lemma strIndex_last: "c \<noteq> [] \<Longrightarrow> strIndex c (int (length c) - 1) = Some (last c)"
proof -
  assume ne: "c \<noteq> []"
  then have "nat (int (length c) - 1) = length c - 1" by simp
  with ne show ?thesis by (simp add: strIndex_def last_conv_nth)
qed

lemma strIndex_second_last:
  "2 \<le> length c \<Longrightarrow> strIndex c (int (length c) - 2) = Some (c ! (length c - 2))"
proof -
  assume len: "2 \<le> length c"
  then have "nat (int (length c) - 2) = length c - 2" by simp
  with len show ?thesis by (simp add: strIndex_def)
qed

lemma nat_int_pred: "nat (int a - 1) = a - 1"
  by arith

lemma slice_from_one:
  assumes "k = 1 \<or> k = 2"
  shows "slice c 1 (- int k) = take (length c - k - 1) (tl c)"
proof (cases "c = []")
  case True
  then show ?thesis by (simp add: slice_def)
next
  case False
  then have l: "1 \<le> length c" by (cases c) simp_all
  have f: "min 1 (int (length c)) = 1" using l by simp
  have t: "max (int (length c) + - int k) 0 = int (length c - k)" by simp
  have k: "- int k < 0" "\<not> (1::int) < 0" using assms by auto
  have "slice c 1 (- int k) = take (nat (int (length c - k) - 1)) (drop (nat 1) c)"
    unfolding slice_def Let_def by (simp only: f t k if_True if_False)
  then show ?thesis by (simp only: nat_int_pred) (simp add: drop_Suc)
qed

lemma slice_inner: "slice c 1 (- 1) = tl (butlast c)"
  using slice_from_one [of 1 c] by (simp add: butlast_conv_take tl_take)

lemma slice_inner_i: "slice c 1 (- 2) = tl (take (length c - 2) c)"
  using slice_from_one [of 2 c] by (simp add: tl_take)

section \<open>The leaf test: \<open>testAgainstStringOrRegExp\<close>\<close>

lemma comparisonIsRegex_nonempty: "comparisonIsRegex c \<Longrightarrow> c \<noteq> []"
  by (auto simp: comparisonIsRegex_def strIndex_def)

lemma comparisonIsRegex_long: "2 \<le> length c \<Longrightarrow> comparisonIsRegex c = denotesRegex c"
proof -
  assume len: "2 \<le> length c"
  then have ne: "c \<noteq> []" by auto
  show ?thesis
    unfolding comparisonIsRegex_def denotesRegex_def Let_def
    by (simp add: strIndex_first [OF ne] strIndex_last [OF ne] strIndex_second_last [OF len])
qed

lemma comparisonIsRegex_short: "length c < 2 \<Longrightarrow> comparisonIsRegex c = (c = ''/'')"
proof (cases c)
  case Nil
  then show ?thesis by (simp add: comparisonIsRegex_def strIndex_def)
next
  case (Cons x xs)
  assume "length c < 2"
  with Cons have "xs = []" by simp
  with Cons show ?thesis by (auto simp: comparisonIsRegex_def strIndex_def)
qed

lemma hasCaseInsensitiveFlag_last:
  "c \<noteq> [] \<Longrightarrow> hasCaseInsensitiveFlag c = (comparisonIsRegex c \<and> last c = CHR ''i'')"
  by (simp add: hasCaseInsensitiveFlag_def strIndex_last)

lemma embedded_branch:
  "comparisonIsRegex c \<Longrightarrow>
   testAgainstStringOrRegExp E value (Str c) =
     (case newRegExp E (innerPattern c) (last c = CHR ''i'') of
        Inl err \<Rightarrow> Inl err
      | Inr re \<Rightarrow> asNativeRegex E value c re)"
proof -
  assume r: "comparisonIsRegex c"
  then have ne: "c \<noteq> []" by (rule comparisonIsRegex_nonempty)
  show ?thesis
    using r
    by (auto simp: testAgainstStringOrRegExp_def asNativeRegex_def innerPattern_def
        hasCaseInsensitiveFlag_last [OF ne] slice_inner slice_inner_i
        split: sum.splits option.splits)
qed

lemma literal_branch:
  "\<not> comparisonIsRegex c \<Longrightarrow> testAgainstStringOrRegExp E value (Str c) = literalTest value c"
  by (simp add: testAgainstStringOrRegExp_def literalTest_def)

lemma test_match_fields:
  "testAgainstStringOrRegExp E value p = Inr (Some r) \<Longrightarrow> match r = value \<and> pattern r = p"
  by (auto simp: testAgainstStringOrRegExp_def split: pattern.splits option.splits if_splits sum.splits)

lemmas sample_defs =
  sampleEngine_def sampleCompile_def sampleExec_def sampleMatchesAt_def plainChar_def
  lowerChar_def

lemmas test_defs =
  testAgainstStringOrRegExp_def comparisonIsRegex_def hasCaseInsensitiveFlag_def
  strIndex_def slice_def

text \<open>
  Claim C1. For a comparison string of at least two characters, the leaf test takes the
  string for an embedded regular expression iff its first character is \<open>/\<close> and its last
  character is \<open>/\<close>, or its second-to-last is \<open>/\<close> and its last is \<open>i\<close>. It then compiles
  the string without the leading \<open>/\<close> and the trailing \<open>/\<close> or \<open>/i\<close>, ignoring case exactly
  when the last character is \<open>i\<close>, and applies the expression as the native-regex branch
  does; a string that does not fit the convention is compared literally.
\<close>

theorem embedded_regex_convention:
  assumes "2 \<le> length c"
  shows "testAgainstStringOrRegExp E value (Str c) =
     (if denotesRegex c then
        (case newRegExp E (innerPattern c) (last c = CHR ''i'') of
           Inl err \<Rightarrow> Inl err
         | Inr re \<Rightarrow> asNativeRegex E value c re)
      else literalTest value c)"
  using comparisonIsRegex_long [OF assms] embedded_branch [of c E "value"]
    literal_branch [of c E "value"]
  by (cases "denotesRegex c") simp_all

theorem embedded_regex_convention_witness:
  "2 \<le> length ''/^f/i'' \<and> denotesRegex ''/^f/i'' \<and> innerPattern ''/^f/i'' = ''^f'' \<and>
   testAgainstStringOrRegExp sampleEngine ''FOO'' (Str ''/^f/i'') =
     Inr (Some \<lparr>match = ''FOO'', pattern = Str ''/^f/i'', substring = ''F''\<rparr>)"
  using embedded_regex_convention [of "''/^f/i''" sampleEngine "''FOO''"]
  by (simp add: denotesRegex_def innerPattern_def asNativeRegex_def
      testAgainstStringOrRegExp_def sample_defs)

text \<open>
  Claim C2, as amended. For a comparison string of fewer than two characters the read of the
  second-to-last character is out of range and gives \<open>undefined\<close>, which raises nothing.
  Every such string but \<open>/\<close> is compared literally. The one-character string \<open>/\<close> fits the
  test of the convention, its one character being the first and the last, and is matched
  as the regular expression with the empty source, case-sensitively.
\<close>

theorem short_comparison:
  assumes "length c < 2"
  shows "strIndex c (int (length c) - 2) = None \<and>
    testAgainstStringOrRegExp E value (Str c) =
     (if c = ''/'' then
        (case newRegExp E [] False of
           Inl err \<Rightarrow> Inl err
         | Inr re \<Rightarrow> asNativeRegex E value c re)
      else literalTest value c)"
proof
  from assms show "strIndex c (int (length c) - 2) = None"
    by (simp add: strIndex_def)
next
  show "testAgainstStringOrRegExp E value (Str c) =
     (if c = ''/'' then
        (case newRegExp E [] False of
           Inl err \<Rightarrow> Inl err
         | Inr re \<Rightarrow> asNativeRegex E value c re)
      else literalTest value c)"
  proof (cases "c = ''/''")
    case True
    then have "comparisonIsRegex c" using comparisonIsRegex_short [OF assms] by simp
    from embedded_branch [OF this, of E "value"] True show ?thesis
      by (simp add: innerPattern_def)
  next
    case False
    then have "\<not> comparisonIsRegex c" using comparisonIsRegex_short [OF assms] by simp
    from literal_branch [OF this, of E "value"] False show ?thesis by simp
  qed
qed

theorem short_comparison_witness:
  "length ''x'' < 2 \<and>
   testAgainstStringOrRegExp sampleEngine ''x'' (Str ''x'') =
     Inr (Some \<lparr>match = ''x'', pattern = Str ''x'', substring = ''x''\<rparr>) \<and>
   testAgainstStringOrRegExp sampleEngine ''y'' (Str ''x'') = Inr None"
  using short_comparison [of "''x''" sampleEngine "''x''"]
    short_comparison [of "''x''" sampleEngine "''y''"]
  by (simp add: literalTest_def)

text \<open>
  Claim C2 as stated fails at the comparison \<open>/\<close>: the value \<open>foo\<close> is not equal to it and
  yet matches, with the empty substring, since the empty regular expression matches at the
  start of every string.
\<close>

theorem lone_slash_counterexample:
  "length ''/'' < 2 \<and> ''foo'' \<noteq> ''/'' \<and>
   strIndex ''/'' (int (length ''/'') - 2) = None \<and>
   testAgainstStringOrRegExp sampleEngine ''foo'' (Str ''/'') =
     Inr (Some \<lparr>match = ''foo'', pattern = Str ''/'', substring = ''''\<rparr>) \<and>
   testAgainstStringOrRegExp sampleEngine ''foo'' (Str ''/'') \<noteq> literalTest ''foo'' ''/''"
  by (simp add: test_defs literalTest_def sample_defs)

text \<open>
  Claim C6. When the comparison string fits the embedded-regex convention and its inner
  pattern does not compile, the leaf test ends in the exception of the constructor, which
  is not the no-match result, and every caller in the module (the array test, the matcher,
  \<open>optionsMatches\<close>) ends in the same exception: nothing catches it.
\<close>

theorem construction_error_propagates:
  assumes "comparisonIsRegex c"
    and "newRegExp E (innerPattern c) (last c = CHR ''i'') = Inl err"
  shows "testAgainstStringOrRegExp E value (Str c) = Inl err \<and>
    testAgainstStringOrRegExp E value (Str c) \<noteq> Inr None \<and>
    testAgainstStringOrRegExpOrArray E value (One (Str c)) = Inl err \<and>
    testAgainstStringOrRegExpOrArray E value (Many [Str c]) = Inl err \<and>
    matchesStringOrRegExp E (Single value) (One (Str c)) = Inl err \<and>
    matchesStringOrRegExp E (Multi [value]) (One (Str c)) = Inl err \<and>
    optionsMatches E (Some [propertyName \<mapsto> One (Str c)]) propertyName (IsString value) = Inl err"
proof -
  have leaf: "testAgainstStringOrRegExp E value (Str c) = Inl err"
    using embedded_branch [OF assms(1), of E "value"] assms(2) by simp
  have ne: "c \<noteq> []" using assms(1) by (rule comparisonIsRegex_nonempty)
  show ?thesis
    using leaf ne
    by (simp add: testAgainstStringOrRegExpOrArray_def matchesStringOrRegExp_def
        optionsMatches_def)
qed

theorem construction_error_propagates_witness:
  "comparisonIsRegex ''/(/'' \<and> newRegExp sampleEngine (innerPattern ''/(/'') (last ''/(/'' = CHR ''i'') = Inl SyntaxError \<and>
   testAgainstStringOrRegExp sampleEngine ''foo'' (Str ''/(/'') = Inl SyntaxError \<and>
   matchesStringOrRegExp sampleEngine (Single ''foo'') (One (Str ''/(/'')) = Inl SyntaxError"
proof -
  have a: "comparisonIsRegex ''/(/''" by (simp add: comparisonIsRegex_def strIndex_def)
  have b: "newRegExp sampleEngine (innerPattern ''/(/'') (last ''/(/'' = CHR ''i'') = Inl SyntaxError"
    by (simp add: innerPattern_def sample_defs)
  from construction_error_propagates [OF a b, of "''foo''"] a b show ?thesis by simp
qed

section \<open>The two loops: \<open>testAgainstStringOrRegExpOrArray\<close> and \<open>matchesStringOrRegExp\<close>\<close>

lemma comparisonLoop_firstHit:
  "comparisonLoop E value ps = firstHit (map (testAgainstStringOrRegExp E value) ps)"
  by (induction ps) (auto split: sum.splits option.splits)

lemma testArray_firstHit:
  "testAgainstStringOrRegExpOrArray E value (Many ps) =
     firstHit (map (testAgainstStringOrRegExp E value) ps)"
  by (simp add: testAgainstStringOrRegExpOrArray_def comparisonLoop_firstHit)

lemma inputLoop_firstHit:
  "inputLoop E items comparison =
     firstHit (map (\<lambda>v. testAgainstStringOrRegExpOrArray E v comparison) items)"
  by (induction items) (auto split: sum.splits option.splits)

lemma firstHit_append:
  "firstHit (rs @ ss) = (if firstHit rs = Inr None then firstHit ss else firstHit rs)"
  by (induction rs) simp_all

lemma firstHit_concat:
  "firstHit (concat rss) = firstHit (map firstHit rss)"
  by (induction rss) (simp_all add: firstHit_append)

lemma firstHit_Some:
  "firstHit rs = Inr (Some r) \<Longrightarrow>
   \<exists>j < length rs. rs ! j = Inr (Some r) \<and> (\<forall>k < j. rs ! k = Inr None)"
proof (induction rs)
  case Nil
  then show ?case by simp
next
  case (Cons a rs)
  show ?case
  proof (cases "a = Inr None")
    case True
    with Cons obtain j where j: "j < length rs" "rs ! j = Inr (Some r)"
      "\<forall>k < j. rs ! k = Inr None" by auto
    have "\<forall>k < Suc j. (a # rs) ! k = Inr None"
      using True j(3) by (auto simp: nth_Cons split: nat.splits)
    with j show ?thesis by (intro exI [of _ "Suc j"]) simp
  next
    case False
    with Cons.prems have "a = Inr (Some r)" by simp
    then show ?thesis by (intro exI [of _ 0]) simp
  qed
qed

lemma inputLoop_Some:
  "inputLoop E items comparison = Inr (Some r) \<Longrightarrow>
   testAgainstStringOrRegExpOrArray E (match r) comparison = Inr (Some r)"
proof (induction items)
  case Nil
  then show ?case by simp
next
  case (Cons v items)
  show ?case
  proof (cases "testAgainstStringOrRegExpOrArray E v comparison")
    case (Inl e)
    with Cons.prems show ?thesis by simp
  next
    case (Inr o1)
    show ?thesis
    proof (cases o1)
      case None
      with Inr Cons show ?thesis by simp
    next
      case (Some r')
      with Inr Cons.prems have eq: "r' = r" by simp
      have "match r = v"
      proof (cases comparison)
        case (One p)
        with Inr Some eq show ?thesis
          by (auto simp: testAgainstStringOrRegExpOrArray_def dest: test_match_fields)
      next
        case (Many ps)
        with Inr Some eq have "firstHit (map (testAgainstStringOrRegExp E v) ps) = Inr (Some r)"
          by (simp add: testArray_firstHit)
        from firstHit_Some [OF this] show ?thesis
          by (auto dest: test_match_fields)
      qed
      with Inr Some eq show ?thesis by simp
    qed
  qed
qed

lemma matches_Some:
  "matchesStringOrRegExp E inp comparison = Inr (Some r) \<Longrightarrow>
   testAgainstStringOrRegExpOrArray E (match r) comparison = Inr (Some r)"
proof (cases inp)
  case (Single v)
  assume m: "matchesStringOrRegExp E inp comparison = Inr (Some r)"
  with Single have t: "testAgainstStringOrRegExpOrArray E v comparison = Inr (Some r)"
    by (simp add: matchesStringOrRegExp_def)
  have "match r = v"
  proof (cases comparison)
    case (One p)
    with t show ?thesis
      by (auto simp: testAgainstStringOrRegExpOrArray_def dest: test_match_fields)
  next
    case (Many ps)
    with t have "firstHit (map (testAgainstStringOrRegExp E v) ps) = Inr (Some r)"
      by (simp add: testArray_firstHit)
    from firstHit_Some [OF this] show ?thesis
      by (auto dest: test_match_fields)
  qed
  with t show ?thesis by simp
next
  case (Multi items)
  assume "matchesStringOrRegExp E inp comparison = Inr (Some r)"
  with Multi show ?thesis by (simp add: matchesStringOrRegExp_def inputLoop_Some)
qed


text \<open>
  Claim C7. The matcher returns the first result that is not a no-match, in order: the
  input items in order, each against the comparison items in order. It returns no match only
  when every pair gives no match. Items after the first hit are not evaluated: appending
  input items or comparison items, even ones whose test would throw, does not change a
  result that is not a no-match. The \<open>pattern\<close> of a match is the first comparison item, in
  the order of the sequence, that the matched input matches.
\<close>

theorem first_match_in_order:
  "matchesStringOrRegExp E (Multi items) (Many ps) =
     firstHit (concat (map (\<lambda>v. map (testAgainstStringOrRegExp E v) ps) items)) \<and>
   matchesStringOrRegExp E (Multi items) (One p) =
     firstHit (map (\<lambda>v. testAgainstStringOrRegExp E v p) items) \<and>
   matchesStringOrRegExp E (Single value) (Many ps) =
     firstHit (map (testAgainstStringOrRegExp E value) ps) \<and>
   (matchesStringOrRegExp E (Multi items) comparison \<noteq> Inr None \<longrightarrow>
      matchesStringOrRegExp E (Multi (items @ later)) comparison =
      matchesStringOrRegExp E (Multi items) comparison) \<and>
   (matchesStringOrRegExp E (Single value) (Many ps) \<noteq> Inr None \<longrightarrow>
      matchesStringOrRegExp E (Single value) (Many (ps @ qs)) =
      matchesStringOrRegExp E (Single value) (Many ps)) \<and>
   (matchesStringOrRegExp E inp (Many ps) = Inr (Some r) \<longrightarrow>
      (\<exists>j < length ps. pattern r = ps ! j \<and>
         testAgainstStringOrRegExp E (match r) (ps ! j) = Inr (Some r) \<and>
         (\<forall>k < j. testAgainstStringOrRegExp E (match r) (ps ! k) = Inr None)))"
proof (intro conjI impI)
  show "matchesStringOrRegExp E (Multi items) (Many ps) =
     firstHit (concat (map (\<lambda>v. map (testAgainstStringOrRegExp E v) ps) items))"
    by (simp add: matchesStringOrRegExp_def inputLoop_firstHit testArray_firstHit
        firstHit_concat comp_def)
next
  show "matchesStringOrRegExp E (Multi items) (One p) =
     firstHit (map (\<lambda>v. testAgainstStringOrRegExp E v p) items)"
    by (simp add: matchesStringOrRegExp_def inputLoop_firstHit
        testAgainstStringOrRegExpOrArray_def)
next
  show "matchesStringOrRegExp E (Single value) (Many ps) =
     firstHit (map (testAgainstStringOrRegExp E value) ps)"
    by (simp add: matchesStringOrRegExp_def testArray_firstHit)
next
  assume "matchesStringOrRegExp E (Multi items) comparison \<noteq> Inr None"
  then show "matchesStringOrRegExp E (Multi (items @ later)) comparison =
      matchesStringOrRegExp E (Multi items) comparison"
    by (simp add: matchesStringOrRegExp_def inputLoop_firstHit firstHit_append)
next
  assume "matchesStringOrRegExp E (Single value) (Many ps) \<noteq> Inr None"
  then show "matchesStringOrRegExp E (Single value) (Many (ps @ qs)) =
      matchesStringOrRegExp E (Single value) (Many ps)"
    by (simp add: matchesStringOrRegExp_def testArray_firstHit firstHit_append)
next
  assume m: "matchesStringOrRegExp E inp (Many ps) = Inr (Some r)"
  from matches_Some [OF m]
  have "firstHit (map (testAgainstStringOrRegExp E (match r)) ps) = Inr (Some r)"
    by (simp add: testArray_firstHit)
  from firstHit_Some [OF this] obtain j where j: "j < length ps"
    "testAgainstStringOrRegExp E (match r) (ps ! j) = Inr (Some r)"
    "\<forall>k < j. testAgainstStringOrRegExp E (match r) (ps ! k) = Inr None"
    by auto
  from test_match_fields [OF j(2)] have "pattern r = ps ! j" by simp
  with j show "\<exists>j < length ps. pattern r = ps ! j \<and>
         testAgainstStringOrRegExp E (match r) (ps ! j) = Inr (Some r) \<and>
         (\<forall>k < j. testAgainstStringOrRegExp E (match r) (ps ! k) = Inr None)"
    by blast
qed

theorem first_match_in_order_witness:
  "matchesStringOrRegExp sampleEngine (Multi [''x'', ''boo'']) (Many [Str ''a'', Str ''/oo/'']) \<noteq> Inr None \<and>
   matchesStringOrRegExp sampleEngine (Multi ([''x'', ''boo''] @ [''a''])) (Many [Str ''a'', Str ''/oo/'']) =
     Inr (Some \<lparr>match = ''boo'', pattern = Str ''/oo/'', substring = ''oo''\<rparr>) \<and>
   matchesStringOrRegExp sampleEngine (Single ''boo'') (Many [Str ''a'', Str ''/oo/'']) \<noteq> Inr None \<and>
   matchesStringOrRegExp sampleEngine (Single ''boo'') (Many ([Str ''a'', Str ''/oo/''] @ [Str ''/(/''])) =
     Inr (Some \<lparr>match = ''boo'', pattern = Str ''/oo/'', substring = ''oo''\<rparr>) \<and>
   (\<exists>j < length [Str ''a'', Str ''/oo/'' :: sampleRx pattern]. Str ''/oo/'' = [Str ''a'', Str ''/oo/''] ! j)"
proof -
  let ?r = "\<lparr>match = ''boo'', pattern = Str ''/oo/'' :: sampleRx pattern, substring = ''oo''\<rparr>"
  have m: "matchesStringOrRegExp sampleEngine (Multi [''x'', ''boo''])
      (Many [Str ''a'', Str ''/oo/'']) = Inr (Some ?r)"
    by (simp add: matchesStringOrRegExp_def testAgainstStringOrRegExpOrArray_def test_defs
        sample_defs)
  have s: "matchesStringOrRegExp sampleEngine (Single ''boo'')
      (Many [Str ''a'', Str ''/oo/'']) = Inr (Some ?r)"
    by (simp add: matchesStringOrRegExp_def testAgainstStringOrRegExpOrArray_def test_defs
        sample_defs)
  note t = first_match_in_order [of sampleEngine "[''x'', ''boo'']" "[Str ''a'', Str ''/oo/'']"
      "Str ''a''" "''boo''" "Many [Str ''a'', Str ''/oo/'']" "[''a'']" "[Str ''/(/'']"
      "Multi [''x'', ''boo'']" ?r]
  from t m have 1: "matchesStringOrRegExp sampleEngine (Multi ([''x'', ''boo''] @ [''a'']))
      (Many [Str ''a'', Str ''/oo/'']) = Inr (Some ?r)" by simp
  from t s have 2: "matchesStringOrRegExp sampleEngine (Single ''boo'')
      (Many ([Str ''a'', Str ''/oo/''] @ [Str ''/(/''])) = Inr (Some ?r)" by simp
  from t m have 3: "\<exists>j < length [Str ''a'', Str ''/oo/'' :: sampleRx pattern].
      Str ''/oo/'' = [Str ''a'', Str ''/oo/''] ! j" by auto
  from m s 1 2 3 show ?thesis by simp
qed







text \<open>
  Claim C8, as amended. A literal string, one that does not fit the embedded-regex
  convention, matches itself, with itself as the substring, and is not matched by any
  other literal string.
\<close>

theorem literal_strings_match_themselves:
  assumes "\<not> comparisonIsRegex s" and "\<not> comparisonIsRegex t" and "t \<noteq> s"
  shows "matchesStringOrRegExp E (Single s) (One (Str s)) =
      Inr (Some \<lparr>match = s, pattern = Str s, substring = s\<rparr>) \<and>
    matchesStringOrRegExp E (Single s) (One (Str t)) = Inr None"
  using assms
  by (simp add: matchesStringOrRegExp_def testAgainstStringOrRegExpOrArray_def
      literal_branch literalTest_def)

theorem literal_strings_match_themselves_witness:
  "\<not> comparisonIsRegex ''foo'' \<and> \<not> comparisonIsRegex ''bar'' \<and> ''bar'' \<noteq> ''foo'' \<and>
   matchesStringOrRegExp sampleEngine (Single ''foo'') (One (Str ''foo'')) =
      Inr (Some \<lparr>match = ''foo'', pattern = Str ''foo'', substring = ''foo''\<rparr>) \<and>
   matchesStringOrRegExp sampleEngine (Single ''foo'') (One (Str ''bar'')) = Inr None"
proof -
  have a: "\<not> comparisonIsRegex ''foo''" by (simp add: comparisonIsRegex_def strIndex_def)
  have b: "\<not> comparisonIsRegex ''bar''" by (simp add: comparisonIsRegex_def strIndex_def)
  have c: "''bar'' \<noteq> ''foo''" by simp
  from literal_strings_match_themselves [OF a b c, of sampleEngine] a b c show ?thesis by simp
qed

text \<open>
  Claim C8 as stated, for every string \<open>t\<close> different from \<open>s\<close>, fails when \<open>t\<close> fits the
  convention: the literal \<open>a\<close> is matched by the comparison string \<open>/a/\<close>.
\<close>

theorem regex_string_counterexample:
  "\<not> comparisonIsRegex ''a'' \<and> ''/a/'' \<noteq> ''a'' \<and>
   matchesStringOrRegExp sampleEngine (Single ''a'') (One (Str ''/a/'')) =
     Inr (Some \<lparr>match = ''a'', pattern = Str ''/a/'', substring = ''a''\<rparr>)"
  by (simp add: matchesStringOrRegExp_def testAgainstStringOrRegExpOrArray_def test_defs
      sample_defs)

section \<open>The rule: \<open>check\<close>\<close>

lemma after_closing_brace_literal: "\<not> comparisonIsRegex ''after-closing-brace''"
  by (simp add: comparisonIsRegex_def strIndex_def)

lemma comparisonLoop_all_literal:
  "list_all (\<lambda>p. p = Str c) ps \<Longrightarrow> \<not> comparisonIsRegex c \<Longrightarrow>
   comparisonLoop E c ps =
     (if ps = [] then Inr None else Inr (Some \<lparr>match = c, pattern = Str c, substring = c\<rparr>))"
  by (cases ps) (simp_all add: literal_branch literalTest_def)

lemma list_ex_all_same: "list_all (\<lambda>p. p = x) ps \<Longrightarrow> list_ex (\<lambda>p. p = x) ps = (ps \<noteq> [])"
  by (cases ps) simp_all

lemma optionsMatches_valid:
  assumes "validOptions primary secondaryOptions"
  shows "optionsMatches E secondaryOptions ''except'' (IsString ''after-closing-brace'') =
    Inr (exceptContains secondaryOptions ''after-closing-brace'')"
proof (cases secondaryOptions)
  case None
  then show ?thesis by (simp add: optionsMatches_def exceptContains_def)
next
  case (Some opts)
  show ?thesis
  proof (cases "opts ''except''")
    case None
    with Some show ?thesis by (simp add: optionsMatches_def exceptContains_def)
  next
    case (Some comparison)
    note c = this
    show ?thesis
    proof (cases comparison)
      case (One p)
      with assms \<open>secondaryOptions = Some opts\<close> c have p: "p = Str ''after-closing-brace''"
        by (simp add: validOptions_def)
      with One c \<open>secondaryOptions = Some opts\<close> show ?thesis
        by (simp add: optionsMatches_def exceptContains_def matchesStringOrRegExp_def
            testAgainstStringOrRegExpOrArray_def
            literal_branch [OF after_closing_brace_literal] literalTest_def)
    next
      case (Many ps)
      with assms \<open>secondaryOptions = Some opts\<close> c
      have ps: "list_all (\<lambda>p. p = Str ''after-closing-brace'') ps"
        by (simp add: validOptions_def)
      from Many c \<open>secondaryOptions = Some opts\<close> show ?thesis
        by (simp add: optionsMatches_def exceptContains_def matchesStringOrRegExp_def
            testAgainstStringOrRegExpOrArray_def
            comparisonLoop_all_literal [OF ps after_closing_brace_literal]
            list_ex_all_same [OF ps])
    qed
  qed
qed

lemma check_skips:
  "\<not> hasBlock (statement st) \<or> hasEmptyBlock (statement st) \<Longrightarrow>
   check E K primary secondaryOptions context st = Inr st"
  by (simp add: check_def)

lemma check_checked:
  assumes "hasBlock (statement st)" and "\<not> hasEmptyBlock (statement st)"
    and "expectEmptyLineBefore E K primary secondaryOptions (statement st) = Inr expect"
  shows "check E K primary secondaryOptions context st =
    (if expect = hasEmptyLine K (before (statement st)) then Inr st
     else if fix context then
       (case newline context of
          None \<Rightarrow> Inr st
        | Some nl \<Rightarrow>
            Inr (st\<lparr>statement :=
                      (if expect then addEmptyLineAfter K (statement st) nl
                       else removeEmptyLinesAfter K (statement st) nl)\<rparr>))
     else
       Inr (st\<lparr>result := result st @
                 [\<lparr>message = (if expect then expected (messages K) else rejected (messages K)),
                   ruleName' = ruleName,
                   node = statement st,
                   index = braceIndex K (statement st)\<rparr>]\<rparr>))"
  using assms by (simp add: check_def Let_def)

text \<open>
  Claim C5. For options that passed validation and a statement with a block, the expected
  blank line is \<open>primary = "never"\<close> exactly when \<open>except\<close> contains
  \<open>"after-closing-brace"\<close>, the statement is an at-rule and none of its children is a
  declaration; for every other statement it is \<open>primary = "always-multi-line"\<close> and the
  block string not being a single line.
\<close>

theorem expected_blank_line:
  assumes "validOptions primary secondaryOptions"
    and "nodes stmt = Some children"
  shows "expectEmptyLineBefore E K primary secondaryOptions stmt =
    Inr (if exceptContains secondaryOptions ''after-closing-brace'' \<and>
            type stmt = ''atrule'' \<and>
            list_all (\<lambda>child. type child \<noteq> ''decl'') children
         then primary = ''never''
         else primary = ''always-multi-line'' \<and>
              \<not> isSingleLineString K (blockString K stmt))"
proof -
  have "(''decl'' \<notin> set (map type children)) = list_all (\<lambda>child. type child \<noteq> ''decl'') children"
    by (induction children) auto
  then show ?thesis
    using assms(2)
    by (simp add: expectEmptyLineBefore_def optionsMatches_valid [OF assms(1)] del: set_map)
qed

theorem expected_blank_line_witness:
  "validOptions ''never'' (Some [''except'' \<mapsto> Many [Str ''after-closing-brace'' :: sampleRx pattern]]) \<and>
   nodes (sampleAtRule '''') = Some [\<lparr>type = ''rule''\<rparr>] \<and>
   expectEmptyLineBefore sampleEngine (sampleCollaborators '''' '''') ''never''
     (Some [''except'' \<mapsto> Many [Str ''after-closing-brace'']]) (sampleAtRule '''') = Inr True \<and>
   nodes (sampleRule '''') = Some [\<lparr>type = ''decl''\<rparr>] \<and>
   expectEmptyLineBefore sampleEngine (sampleCollaborators '''' '''') ''never''
     (Some [''except'' \<mapsto> Many [Str ''after-closing-brace'']]) (sampleRule '''') = Inr False"
proof -
  let ?o = "Some [''except'' \<mapsto> Many [Str ''after-closing-brace'' :: sampleRx pattern]]"
  have v: "validOptions ''never'' ?o" by (simp add: validOptions_def)
  have a: "nodes (sampleAtRule '''') = Some [\<lparr>type = ''rule''\<rparr>]" by (simp add: sampleAtRule_def)
  have r: "nodes (sampleRule '''') = Some [\<lparr>type = ''decl''\<rparr>]" by (simp add: sampleRule_def)
  from expected_blank_line [OF v a, of sampleEngine "sampleCollaborators '''' ''''"]
  have 1: "expectEmptyLineBefore sampleEngine (sampleCollaborators '''' '''') ''never'' ?o
      (sampleAtRule '''') = Inr True"
    by (simp add: exceptContains_def sampleAtRule_def)
  from expected_blank_line [OF v r, of sampleEngine "sampleCollaborators '''' ''''"]
  have 2: "expectEmptyLineBefore sampleEngine (sampleCollaborators '''' '''') ''never'' ?o
      (sampleRule '''') = Inr False"
    by (simp add: exceptContains_def sampleRule_def)
  from v a r 1 2 show ?thesis by simp
qed

lemmas sample_rule_defs =
  sampleTree_def sampleChecked_def sampleCollaborators_def sampleRule_def sampleAtRule_def
  hasBlock_def hasEmptyBlock_def before_def replaceSemicolons_def

lemma sample_expect_never:
  "expectEmptyLineBefore sampleEngine sampleTree ''never'' None
     (statement (sampleChecked ''\<newline>\<newline>'')) = Inr False"
  by (simp add: expectEmptyLineBefore_def optionsMatches_def sample_rule_defs)

lemma sample_expect_always:
  "expectEmptyLineBefore sampleEngine sampleTree ''always-multi-line'' None
     (statement (sampleChecked ''\<newline>\<newline>'')) = Inr True"
  by (simp add: expectEmptyLineBefore_def optionsMatches_def sample_rule_defs)

lemma sample_has_block:
  "hasBlock (statement (sampleChecked after)) \<and> \<not> hasEmptyBlock (statement (sampleChecked after))"
  by (simp add: sample_rule_defs)

lemma sample_has_empty_line:
  "hasEmptyLine sampleTree (before (statement (sampleChecked ''\<newline>\<newline>'')))"
  by (simp add: sample_rule_defs)

lemma braceIndex_explicit:
  "braceIndex K s =
     (let text = statementToString K s
      in if 2 \<le> length text \<and> text ! (length text - 2) = CHR 0x0D
         then int (length text) - 2 else int (length text) - 1)"
proof -
  let ?t = "statementToString K s"
  have i: "int (length ?t) - 1 - 1 = int (length ?t) - 2" by simp
  have r: "(0 \<le> int (length ?t) - 2 \<and> int (length ?t) - 2 < int (length ?t)) = (2 \<le> length ?t)"
    by auto
  have n: "nat (int (length ?t) - 2) = length ?t - 2" by simp
  show ?thesis
    unfolding braceIndex_def Let_def strIndex_def i r n by simp
qed

text \<open>
  Claim C4, as amended. For a statement with a non-empty block whose expectation is
  computed: when the blank line found equals the one expected, \<open>check\<close> returns the state as
  it was, with no report. When they differ and \<open>fix\<close> is off, it adds exactly one report,
  with the statement as node. The index of the report is the last position of the
  statement's text, or the position before it when the character there is a carriage
  return. The message is what \<open>ruleMessages\<close> makes, for the rule's name, of the text
  "Expected empty line before closing brace" when a blank line was expected and of
  "Unexpected empty line before closing brace" otherwise; with stylelint's \<open>ruleMessages\<close>
  that is the text followed by " (block-closing-brace-empty-line-before)".
\<close>

theorem check_reports:
  assumes "hasBlock (statement st)" and "\<not> hasEmptyBlock (statement st)"
    and "expectEmptyLineBefore E K primary secondaryOptions (statement st) = Inr expect"
  shows
    "(expect = hasEmptyLine K (before (statement st)) \<longrightarrow>
        check E K primary secondaryOptions context st = Inr st) \<and>
     (expect \<noteq> hasEmptyLine K (before (statement st)) \<and> \<not> fix context \<longrightarrow>
        check E K primary secondaryOptions context st =
          Inr (st\<lparr>result := result st @
                    [\<lparr>message =
                        (if expect
                         then expected (ruleMessages K ''block-closing-brace-empty-line-before''
                           \<lparr>expected = ''Expected empty line before closing brace'',
                            rejected = ''Unexpected empty line before closing brace''\<rparr>)
                         else rejected (ruleMessages K ''block-closing-brace-empty-line-before''
                           \<lparr>expected = ''Expected empty line before closing brace'',
                            rejected = ''Unexpected empty line before closing brace''\<rparr>)),
                      ruleName' = ''block-closing-brace-empty-line-before'',
                      node = statement st,
                      index =
                        (let text = statementToString K (statement st)
                         in if 2 \<le> length text \<and> text ! (length text - 2) = CHR 0x0D
                            then int (length text) - 2 else int (length text) - 1)\<rparr>]\<rparr>)) \<and>
     (ruleMessages K = stylelintRuleMessages \<longrightarrow>
        ruleMessages K ''block-closing-brace-empty-line-before''
          \<lparr>expected = ''Expected empty line before closing brace'',
           rejected = ''Unexpected empty line before closing brace''\<rparr> =
        \<lparr>expected =
           ''Expected empty line before closing brace (block-closing-brace-empty-line-before)'',
         rejected =
           ''Unexpected empty line before closing brace (block-closing-brace-empty-line-before)''\<rparr>)"
proof (intro conjI impI)
  assume "expect = hasEmptyLine K (before (statement st))"
  with check_checked [OF assms, of "context"]
  show "check E K primary secondaryOptions context st = Inr st" by simp
next
  assume "expect \<noteq> hasEmptyLine K (before (statement st)) \<and> \<not> fix context"
  with check_checked [OF assms, of "context"]
  have "check E K primary secondaryOptions context st =
      Inr (st\<lparr>result := result st @
                [\<lparr>message = (if expect then expected (messages K) else rejected (messages K)),
                  ruleName' = ruleName,
                  node = statement st,
                  index = braceIndex K (statement st)\<rparr>]\<rparr>)"
    by simp
  then show "check E K primary secondaryOptions context st =
          Inr (st\<lparr>result := result st @
                    [\<lparr>message =
                        (if expect
                         then expected (ruleMessages K ''block-closing-brace-empty-line-before''
                           \<lparr>expected = ''Expected empty line before closing brace'',
                            rejected = ''Unexpected empty line before closing brace''\<rparr>)
                         else rejected (ruleMessages K ''block-closing-brace-empty-line-before''
                           \<lparr>expected = ''Expected empty line before closing brace'',
                            rejected = ''Unexpected empty line before closing brace''\<rparr>)),
                      ruleName' = ''block-closing-brace-empty-line-before'',
                      node = statement st,
                      index =
                        (let text = statementToString K (statement st)
                         in if 2 \<le> length text \<and> text ! (length text - 2) = CHR 0x0D
                            then int (length text) - 2 else int (length text) - 1)\<rparr>]\<rparr>)"
    by (simp only: messages_def ruleName_def braceIndex_explicit)
next
  assume "ruleMessages K = stylelintRuleMessages"
  then show "ruleMessages K ''block-closing-brace-empty-line-before''
          \<lparr>expected = ''Expected empty line before closing brace'',
           rejected = ''Unexpected empty line before closing brace''\<rparr> =
        \<lparr>expected =
           ''Expected empty line before closing brace (block-closing-brace-empty-line-before)'',
         rejected =
           ''Unexpected empty line before closing brace (block-closing-brace-empty-line-before)''\<rparr>"
    by (simp add: stylelintRuleMessages_def)
qed

theorem check_reports_witness:
  "hasBlock (statement (sampleChecked ''\<newline>\<newline>'')) \<and>
   \<not> hasEmptyBlock (statement (sampleChecked ''\<newline>\<newline>'')) \<and>
   expectEmptyLineBefore sampleEngine sampleTree ''always-multi-line'' None
     (statement (sampleChecked ''\<newline>\<newline>'')) = Inr True \<and>
   hasEmptyLine sampleTree (before (statement (sampleChecked ''\<newline>\<newline>''))) \<and>
   check sampleEngine sampleTree ''always-multi-line'' None \<lparr>fix = False, newline = None\<rparr>
     (sampleChecked ''\<newline>\<newline>'') = Inr (sampleChecked ''\<newline>\<newline>'') \<and>
   expectEmptyLineBefore sampleEngine sampleTree ''never'' None
     (statement (sampleChecked ''\<newline>\<newline>'')) = Inr False \<and>
   \<not> fix \<lparr>fix = False, newline = None\<rparr> \<and>
   ruleMessages sampleTree = stylelintRuleMessages \<and>
   check sampleEngine sampleTree ''never'' None \<lparr>fix = False, newline = None\<rparr>
     (sampleChecked ''\<newline>\<newline>'') =
     Inr \<lparr>statement = sampleRule ''\<newline>\<newline>'',
          result =
            [\<lparr>message = ''Unexpected empty line before closing brace (block-closing-brace-empty-line-before)'',
              ruleName' = ''block-closing-brace-empty-line-before'',
              node = sampleRule ''\<newline>\<newline>'',
              index = 19\<rparr>]\<rparr>"
proof -
  let ?st = "sampleChecked ''\<newline>\<newline>''"
  let ?c = "\<lparr>fix = False, newline = None\<rparr>"
  have b: "hasBlock (statement ?st)" and e: "\<not> hasEmptyBlock (statement ?st)"
    using sample_has_block [of "''\<newline>\<newline>''"] by simp_all
  note h = sample_has_empty_line
  have r: "ruleMessages sampleTree = stylelintRuleMessages"
    by (simp add: sampleTree_def sampleCollaborators_def)
  from check_reports [OF b e sample_expect_always, of ?c] h
  have 1: "check sampleEngine sampleTree ''always-multi-line'' None ?c ?st = Inr ?st"
    by simp
  from check_reports [OF b e sample_expect_never, of ?c] h r
  have 2: "check sampleEngine sampleTree ''never'' None ?c ?st =
     Inr \<lparr>statement = sampleRule ''\<newline>\<newline>'',
          result =
            [\<lparr>message = ''Unexpected empty line before closing brace (block-closing-brace-empty-line-before)'',
              ruleName' = ''block-closing-brace-empty-line-before'',
              node = sampleRule ''\<newline>\<newline>'',
              index = 19\<rparr>]\<rparr>"
    by (simp add: sampleTree_def sampleChecked_def sampleCollaborators_def)
  from b e h r 1 2 sample_expect_always sample_expect_never show ?thesis by simp
qed

text \<open>
  Claim C4 as stated fails on the index and on the message. For the rule whose text ends in
  a carriage return and the brace, checked under \<open>always-multi-line\<close> with \<open>fix\<close> off, the one
  report has index 15, where the carriage return stands, and not 16, where the closing
  brace stands; and its message, under stylelint's \<open>ruleMessages\<close>, is not the string
  "expected empty line before closing brace".
\<close>

theorem carriage_return_index_counterexample:
  "hasBlock (statement crChecked) \<and> \<not> hasEmptyBlock (statement crChecked) \<and>
   \<not> fix \<lparr>fix = False, newline = None\<rparr> \<and>
   check sampleEngine crTree ''always-multi-line'' None \<lparr>fix = False, newline = None\<rparr>
     crChecked =
     Inr \<lparr>statement = statement crChecked,
          result =
            [\<lparr>message = ''Expected empty line before closing brace (block-closing-brace-empty-line-before)'',
              ruleName' = ''block-closing-brace-empty-line-before'',
              node = statement crChecked,
              index = 15\<rparr>]\<rparr> \<and>
   statementToString crTree (statement crChecked) ! 15 = CHR 0x0D \<and>
   statementToString crTree (statement crChecked) ! 16 = CHR ''}'' \<and>
   length (statementToString crTree (statement crChecked)) = 17 \<and>
   ''Expected empty line before closing brace (block-closing-brace-empty-line-before)'' \<noteq>
     ''expected empty line before closing brace''"
  by (simp add: check_def expectEmptyLineBefore_def optionsMatches_def messages_def
      ruleName_def braceIndex_def strIndex_def stylelintRuleMessages_def crChecked_def
      crTree_def crText_def sample_rule_defs)

text \<open>
  Claim C10. For a statement with a non-empty block whose blank line differs from the one
  expected, when \<open>fix\<close> is on and \<open>newline\<close> is not a string, \<open>check\<close> returns normally with
  the state as it was: no report, no exception, the statement and its \<open>raws.after\<close>
  unchanged.
\<close>

theorem fix_without_newline:
  assumes "hasBlock (statement st)" and "\<not> hasEmptyBlock (statement st)"
    and "expectEmptyLineBefore E K primary secondaryOptions (statement st) = Inr expect"
    and "expect \<noteq> hasEmptyLine K (before (statement st))"
    and "fix context" and "newline context = None"
  shows "check E K primary secondaryOptions context st = Inr st"
  using check_checked [OF assms(1-3), of "context"] assms(4-6) by simp

theorem fix_without_newline_witness:
  "hasBlock (statement (sampleChecked ''\<newline>\<newline>'')) \<and>
   \<not> hasEmptyBlock (statement (sampleChecked ''\<newline>\<newline>'')) \<and>
   expectEmptyLineBefore sampleEngine sampleTree ''never'' None
     (statement (sampleChecked ''\<newline>\<newline>'')) = Inr False \<and>
   False \<noteq> hasEmptyLine sampleTree (before (statement (sampleChecked ''\<newline>\<newline>''))) \<and>
   fix \<lparr>fix = True, newline = None\<rparr> \<and> newline \<lparr>fix = True, newline = None\<rparr> = None \<and>
   check sampleEngine sampleTree ''never'' None \<lparr>fix = True, newline = None\<rparr>
     (sampleChecked ''\<newline>\<newline>'') = Inr (sampleChecked ''\<newline>\<newline>'')"
proof -
  let ?st = "sampleChecked ''\<newline>\<newline>''"
  let ?c = "\<lparr>fix = True, newline = None\<rparr>"
  have b: "hasBlock (statement ?st)" and e: "\<not> hasEmptyBlock (statement ?st)"
    using sample_has_block [of "''\<newline>\<newline>''"] by simp_all
  have h: "False \<noteq> hasEmptyLine sampleTree (before (statement ?st))"
    using sample_has_empty_line by simp
  have f: "fix ?c" and n: "newline ?c = None" by simp_all
  from fix_without_newline [OF b e sample_expect_never h f n] b e h sample_expect_never
  show ?thesis by simp
qed

text \<open>
  Claim C3. The text inspected for a blank line is \<open>raws.after\<close> with the first run of
  semicolons removed, not with all of them: for \<open>raws.after = ";\n;\n"\<close> of a rule with a
  non-empty block the second semicolon stays in the inspected text, which therefore has no
  blank line, whereas the text with every semicolon stripped has one.
\<close>

theorem later_semicolons_are_kept:
  "hasBlock (sampleRule '';\<newline>;\<newline>'') \<and> \<not> hasEmptyBlock (sampleRule '';\<newline>;\<newline>'') \<and>
   before (sampleRule '';\<newline>;\<newline>'') = ''\<newline>;\<newline>'' \<and>
   CHR '';'' \<in> set (before (sampleRule '';\<newline>;\<newline>'')) \<and>
   \<not> hasEmptyLine sampleTree (before (sampleRule '';\<newline>;\<newline>'')) \<and>
   hasEmptyLine sampleTree (filter (\<lambda>c. c \<noteq> CHR '';'') '';\<newline>;\<newline>'')"
  by (simp add: sample_rule_defs)

end
